theory Spec2Isabelle
  imports Main "HOL-Library.AList"
begin

section \<open>JavaScript values\<close>

text \<open>
  The interceptor of \<^verbatim>\<open>backend/src/middleware/tenantIsolation.ts\<close> works on untyped
  JavaScript objects (\<^verbatim>\<open>params.args.where\<close>, \<^verbatim>\<open>params.args.data\<close>).  An object is an
  association list from property names to values, in property order; \<^verbatim>\<open>undefined\<close> at a
  property position is \<open>None\<close>.
\<close>

datatype jsval =
    JNull
  | JBool bool
  | JNumber int
  | JString string
  | JArray "jsval list"
  | JObject "(string \<times> jsval) list"

type_synonym obj = "(string \<times> jsval) list"

text \<open>Decimal rendering of an array index, as JavaScript names the index properties.\<close>

definition digit_char :: "nat \<Rightarrow> char" where
  "digit_char d = ''0123456789'' ! d"

fun index_key :: "nat \<Rightarrow> string" where
  "index_key n = (if n < 10 then [digit_char n] else index_key (n div 10) @ [digit_char (n mod 10)])"

text \<open>
  Object spread \<^verbatim>\<open>{ ...v }\<close>: the own enumerable properties of \<open>v\<close>.  \<^verbatim>\<open>undefined\<close>,
  \<^verbatim>\<open>null\<close>, booleans and numbers contribute nothing; an array or a string contributes
  its index properties.
\<close>

fun spread :: "jsval option \<Rightarrow> obj" where
  "spread None = []"
| "spread (Some (JObject kvs)) = kvs"
| "spread (Some (JArray xs)) = zip (map index_key [0..<length xs]) xs"
| "spread (Some (JString s)) = zip (map index_key [0..<length s]) (map (\<lambda>c. JString [c]) s)"
| "spread (Some JNull) = []"
| "spread (Some (JBool b)) = []"
| "spread (Some (JNumber n)) = []"

text \<open>
  \<^verbatim>\<open>String.prototype.toLowerCase\<close> on the ASCII range: the letters \<open>A\<close> to \<open>Z\<close>
  move to \<open>a\<close> to \<open>z\<close>; every other byte is kept.
\<close>

definition toLowerCase_char :: "char \<Rightarrow> char" where
  "toLowerCase_char c =
     (case map_of (zip ''ABCDEFGHIJKLMNOPQRSTUVWXYZ'' ''abcdefghijklmnopqrstuvwxyz'') c of
        Some l \<Rightarrow> l
      | None \<Rightarrow> c)"

definition toLowerCase :: "string \<Rightarrow> string" where
  "toLowerCase s = map toLowerCase_char s"


section \<open>Tenant context\<close>

text \<open>
  \<^verbatim>\<open>let currentTenantId: string | null = null\<close> is one module-level slot.  The model
  passes it explicitly: \<open>None\<close> is \<^verbatim>\<open>null\<close>.
\<close>

type_synonym tenant_ctx = "string option"


definition getCurrentTenant :: "tenant_ctx \<Rightarrow> string option" where
  "getCurrentTenant ctx = ctx"


text \<open>
  JavaScript truthiness of a \<^verbatim>\<open>string | null\<close>: \<^verbatim>\<open>null\<close> and the empty string are
  falsy.  Both \<^verbatim>\<open>!tenantId\<close> in the interceptor and \<^verbatim>\<open>if (previousTenant)\<close> in
  \<^verbatim>\<open>withTenant\<close> test it.
\<close>

fun truthy :: "string option \<Rightarrow> bool" where
  "truthy None = False"
| "truthy (Some s) = (s \<noteq> [])"

text \<open>The value of the variable \<^verbatim>\<open>tenantId\<close> when it is written into an object.\<close>

fun tenant_value :: "string option \<Rightarrow> jsval" where
  "tenant_value None = JNull"
| "tenant_value (Some t) = JString t"


section \<open>The interceptor\<close>

text \<open>
  \<^verbatim>\<open>params\<close> as Prisma hands it to a middleware: the model name (absent for raw
  queries), the action name, and the argument object.  Of the argument object the
  interceptor reads and writes \<^verbatim>\<open>where\<close> and \<^verbatim>\<open>data\<close>; all its other properties
  (\<^verbatim>\<open>include\<close>, \<^verbatim>\<open>orderBy\<close>, ...) are carried in \<open>args_rest\<close>.  The argument object
  itself is taken to be present, as it is in every call the services make.
\<close>

record args =
  args_where :: "jsval option"
  args_data :: "jsval option"
  args_rest :: obj

record params =
  model :: "string option"
  action :: string
  args :: args

text \<open>
  What a call can fail with: the interceptor's own error, and the failures that storage
  reports (no such record, a violated constraint, a request that names no table or
  column of the schema).
\<close>

datatype error =
    TenantRequired
  | NotFound
  | ConstraintViolation string
  | InvalidRequest string

definition tenantedModels :: "string list" where
  "tenantedModels =
     [''supplier'', ''product'', ''location'', ''shipmentRoute'', ''riskEvent'', ''inventory'',
      ''user'', ''riskEventSupplier'', ''riskEventProduct'', ''riskEventLocation'',
      ''riskEventRoute'']"

text \<open>
  \<^verbatim>\<open>const modelName = params.model?.toLowerCase();\<close>
  \<^verbatim>\<open>const isTenantedModel = modelName && tenantedModels.includes(modelName);\<close>
\<close>

definition isTenantedModel :: "params \<Rightarrow> bool" where
  "isTenantedModel p =
     (case model p of
        None \<Rightarrow> False
      | Some m \<Rightarrow> toLowerCase m \<noteq> [] \<and> toLowerCase m \<in> set tenantedModels)"

text \<open>\<^verbatim>\<open>params.args.where = { ...params.args.where, tenantId }\<close>\<close>

definition inject_where :: "string option \<Rightarrow> params \<Rightarrow> params" where
  "inject_where tenantId p =
     p\<lparr>args := (args p)\<lparr>args_where :=
        Some (JObject (AList.update ''tenantId'' (tenant_value tenantId)
                         (spread (args_where (args p)))))\<rparr>\<rparr>"

text \<open>\<^verbatim>\<open>params.args.data = { ...params.args.data, tenantId }\<close>\<close>

definition inject_data :: "string option \<Rightarrow> params \<Rightarrow> params" where
  "inject_data tenantId p =
     p\<lparr>args := (args p)\<lparr>args_data :=
        Some (JObject (AList.update ''tenantId'' (tenant_value tenantId)
                         (spread (args_data (args p)))))\<rparr>\<rparr>"

text \<open>
  The \<^verbatim>\<open>createMany\<close> case: an array payload is mapped record by record, anything else
  is treated as in \<^verbatim>\<open>create\<close>.
\<close>

definition inject_data_many :: "string option \<Rightarrow> params \<Rightarrow> params" where
  "inject_data_many tenantId p =
     (case args_data (args p) of
        Some (JArray records) \<Rightarrow>
          p\<lparr>args := (args p)\<lparr>args_data :=
             Some (JArray (map (\<lambda>record.
                JObject (AList.update ''tenantId'' (tenant_value tenantId) (spread (Some record))))
                records))\<rparr>\<rparr>
      | _ \<Rightarrow> inject_data tenantId p)"

text \<open>The \<^verbatim>\<open>switch (params.action)\<close>; an action with no case leaves \<open>params\<close> as it is.\<close>

definition rewrite_params :: "string option \<Rightarrow> params \<Rightarrow> params" where
  "rewrite_params tenantId p =
     (if action p \<in> set [''findUnique'', ''findFirst'', ''findFirstOrThrow'', ''findUniqueOrThrow'']
        then inject_where tenantId p
      else if action p \<in> set [''findMany'', ''count'', ''aggregate'', ''groupBy'']
        then inject_where tenantId p
      else if action p = ''create''
        then inject_data tenantId p
      else if action p = ''createMany''
        then inject_data_many tenantId p
      else if action p \<in> set [''update'', ''updateMany'', ''upsert'']
        then inject_where tenantId p
      else if action p \<in> set [''delete'', ''deleteMany'']
        then inject_where tenantId p
      else p)"

text \<open>
  What the interceptor does before it calls \<^verbatim>\<open>next\<close>: either it throws (\<open>Inl\<close>), or it
  has decided on the \<open>params\<close> that \<^verbatim>\<open>next\<close> will receive (\<open>Inr\<close>).
\<close>

definition intercept :: "tenant_ctx \<Rightarrow> params \<Rightarrow> error + params" where
  "intercept ctx p =
     (let tenantId = getCurrentTenant ctx in
      if \<not> truthy tenantId \<and> action p \<noteq> ''executeRaw'' \<and> action p \<noteq> ''queryRaw''
        then Inl TenantRequired
      else if \<not> isTenantedModel p
        then Inr p
      else Inr (rewrite_params tenantId p))"

text \<open>
  \<^verbatim>\<open>tenantIsolationMiddleware\<close>.  \<^verbatim>\<open>next\<close> is the rest of the pipeline down to storage:
  it takes the forwarded \<open>params\<close> and the storage state and returns the outcome and the
  new storage state.  A throw of the interceptor leaves the storage state alone.
\<close>

definition tenantIsolationMiddleware ::
  "tenant_ctx \<Rightarrow> params \<Rightarrow> (params \<Rightarrow> 's \<Rightarrow> (error + 'r) \<times> 's) \<Rightarrow> 's \<Rightarrow> (error + 'r) \<times> 's" where
  "tenantIsolationMiddleware ctx p next s =
     (case intercept ctx p of
        Inl e \<Rightarrow> (Inl e, s)
      | Inr p' \<Rightarrow> next p' s)"



section \<open>The entity services as Prisma calls\<close>

text \<open>
  Each service method of \<^verbatim>\<open>backend/src/services\<close> is one Prisma client call; the client
  turns it into \<open>params\<close> for the registered middleware.  The model names are those of the
  Prisma schema (\<^verbatim>\<open>specs/002-data-model-schema/data-model.md\<close>), which is what
  \<^verbatim>\<open>params.model\<close> carries.
\<close>

definition prisma_models :: "string list" where
  "prisma_models =
     [''Supplier'', ''Product'', ''Location'', ''ShipmentRoute'', ''RiskEvent'', ''Inventory'',
      ''User'', ''RiskEventSupplier'', ''RiskEventProduct'', ''RiskEventLocation'',
      ''RiskEventRoute'']"

definition prisma_call :: "string \<Rightarrow> string \<Rightarrow> jsval option \<Rightarrow> jsval option \<Rightarrow> obj \<Rightarrow> params" where
  "prisma_call m a w d rest =
     \<lparr>model = Some m, action = a, args = \<lparr>args_where = w, args_data = d, args_rest = rest\<rparr>\<rparr>"

text \<open>\<^verbatim>\<open>prisma.supplier.create({ data })\<close> and its siblings in \<^verbatim>\<open>SupplierService\<close>.\<close>

definition SupplierService_create :: "jsval \<Rightarrow> params" where
  "SupplierService_create data = prisma_call ''Supplier'' ''create'' None (Some data) []"


definition SupplierService_findById :: "string \<Rightarrow> params" where
  "SupplierService_findById ident =
     prisma_call ''Supplier'' ''findUnique'' (Some (JObject [(''id'', JString ident)])) None []"

definition SupplierService_update :: "string \<Rightarrow> jsval \<Rightarrow> params" where
  "SupplierService_update ident data =
     prisma_call ''Supplier'' ''update'' (Some (JObject [(''id'', JString ident)])) (Some data) []"

definition SupplierService_delete :: "string \<Rightarrow> params" where
  "SupplierService_delete ident =
     prisma_call ''Supplier'' ''delete'' (Some (JObject [(''id'', JString ident)])) None []"

text \<open>\<^verbatim>\<open>ShipmentRouteService\<close>; the reads include both locations.\<close>

definition route_include :: obj where
  "route_include =
     [(''include'', JObject [(''originLocation'', JBool True), (''destinationLocation'', JBool True)])]"

definition ShipmentRouteService_create :: "jsval \<Rightarrow> params" where
  "ShipmentRouteService_create data = prisma_call ''ShipmentRoute'' ''create'' None (Some data) []"

definition ShipmentRouteService_findAll :: "jsval option \<Rightarrow> params" where
  "ShipmentRouteService_findAll w = prisma_call ''ShipmentRoute'' ''findMany'' w None route_include"

definition ShipmentRouteService_findById :: "string \<Rightarrow> params" where
  "ShipmentRouteService_findById ident =
     prisma_call ''ShipmentRoute'' ''findUnique'' (Some (JObject [(''id'', JString ident)])) None
       route_include"

definition ShipmentRouteService_update :: "string \<Rightarrow> jsval \<Rightarrow> params" where
  "ShipmentRouteService_update ident data =
     prisma_call ''ShipmentRoute'' ''update'' (Some (JObject [(''id'', JString ident)])) (Some data) []"

text \<open>\<^verbatim>\<open>RiskEventService\<close>: the reads include the four junctions with their far sides.\<close>

definition risk_event_include :: obj where
  "risk_event_include =
     [(''include'', JObject
        [(''suppliers'', JObject [(''include'', JObject [(''supplier'', JBool True)])]),
         (''products'', JObject [(''include'', JObject [(''product'', JBool True)])]),
         (''locations'', JObject [(''include'', JObject [(''location'', JBool True)])]),
         (''routes'', JObject [(''include'', JObject [(''route'', JBool True)])])])]"

definition RiskEventService_findAll :: "jsval option \<Rightarrow> params" where
  "RiskEventService_findAll w = prisma_call ''RiskEvent'' ''findMany'' w None risk_event_include"

definition RiskEventService_addSupplier :: "string \<Rightarrow> string \<Rightarrow> string \<Rightarrow> params" where
  "RiskEventService_addSupplier riskEventId supplierId tenantId =
     prisma_call ''RiskEventSupplier'' ''create'' None
       (Some (JObject [(''tenantId'', JString tenantId), (''riskEventId'', JString riskEventId),
                       (''supplierId'', JString supplierId)])) []"

definition RiskEventService_removeSupplier :: "string \<Rightarrow> string \<Rightarrow> params" where
  "RiskEventService_removeSupplier riskEventId supplierId =
     prisma_call ''RiskEventSupplier'' ''deleteMany''
       (Some (JObject [(''riskEventId'', JString riskEventId), (''supplierId'', JString supplierId)]))
       None []"


section \<open>The relational schema\<close>

text \<open>
  \<^verbatim>\<open>backend/prisma/migrations/20251129220305_init/migration.sql\<close>, as data: for each
  table its columns with their \<^verbatim>\<open>NOT NULL\<close> and \<^verbatim>\<open>DEFAULT\<close> clauses, the primary keys
  and unique indexes, and the foreign keys with their \<^verbatim>\<open>ON DELETE\<close> rule.  The file
  declares no \<^verbatim>\<open>CHECK\<close> constraint and no trigger.  Column types and the plain
  (non-unique) indexes do not decide whether a row is accepted once its values are
  well-typed, and are left out; a value is its text.
\<close>

datatype nullability = NotNull | Nullable

datatype default_value = NoDefault | Default string

type_synonym column = "string \<times> nullability \<times> default_value"

definition tables :: "(string \<times> column list) list" where
  "tables =
    [(''suppliers'',
       [(''id'', NotNull, NoDefault), (''tenant_id'', NotNull, NoDefault),
        (''code'', NotNull, NoDefault), (''name'', NotNull, NoDefault),
        (''country'', NotNull, NoDefault), (''contact_email'', Nullable, NoDefault),
        (''contact_phone'', Nullable, NoDefault), (''address'', Nullable, NoDefault),
        (''rating'', NotNull, Default ''3''), (''notes'', Nullable, NoDefault),
        (''created_at'', NotNull, Default ''CURRENT_TIMESTAMP''),
        (''updated_at'', NotNull, NoDefault)]),
     (''products'',
       [(''id'', NotNull, NoDefault), (''tenant_id'', NotNull, NoDefault),
        (''sku'', NotNull, NoDefault), (''name'', NotNull, NoDefault),
        (''description'', Nullable, NoDefault), (''category'', NotNull, NoDefault),
        (''unit_of_measure'', NotNull, Default ''unit''),
        (''lead_time_days'', NotNull, NoDefault), (''supplier_id'', NotNull, NoDefault),
        (''created_at'', NotNull, Default ''CURRENT_TIMESTAMP''),
        (''updated_at'', NotNull, NoDefault)]),
     (''locations'',
       [(''id'', NotNull, NoDefault), (''tenant_id'', NotNull, NoDefault),
        (''code'', NotNull, NoDefault), (''name'', NotNull, NoDefault),
        (''type'', NotNull, NoDefault), (''address'', Nullable, NoDefault),
        (''city'', Nullable, NoDefault), (''state'', Nullable, NoDefault),
        (''country'', NotNull, NoDefault), (''postal_code'', Nullable, NoDefault),
        (''latitude'', Nullable, NoDefault), (''longitude'', Nullable, NoDefault),
        (''capacity'', Nullable, NoDefault), (''status'', NotNull, Default ''ACTIVE''),
        (''created_at'', NotNull, Default ''CURRENT_TIMESTAMP''),
        (''updated_at'', NotNull, NoDefault)]),
     (''shipment_routes'',
       [(''id'', NotNull, NoDefault), (''tenant_id'', NotNull, NoDefault),
        (''origin_location_id'', NotNull, NoDefault),
        (''destination_location_id'', NotNull, NoDefault),
        (''transit_time_days'', NotNull, NoDefault), (''transport_mode'', NotNull, NoDefault),
        (''distance'', Nullable, NoDefault), (''cost'', Nullable, NoDefault),
        (''created_at'', NotNull, Default ''CURRENT_TIMESTAMP''),
        (''updated_at'', NotNull, NoDefault)]),
     (''risk_events'',
       [(''id'', NotNull, NoDefault), (''tenant_id'', NotNull, NoDefault),
        (''event_type'', NotNull, NoDefault), (''severity'', NotNull, NoDefault),
        (''status'', NotNull, Default ''ACTIVE''), (''start_date'', NotNull, NoDefault),
        (''resolution_date'', Nullable, NoDefault), (''title'', NotNull, NoDefault),
        (''description'', NotNull, NoDefault), (''impact_assessment'', Nullable, NoDefault),
        (''mitigation_plan'', Nullable, NoDefault),
        (''created_at'', NotNull, Default ''CURRENT_TIMESTAMP''),
        (''updated_at'', NotNull, NoDefault)]),
     (''inventory'',
       [(''id'', NotNull, NoDefault), (''tenant_id'', NotNull, NoDefault),
        (''product_id'', NotNull, NoDefault), (''location_id'', NotNull, NoDefault),
        (''quantity_on_hand'', NotNull, Default ''0''),
        (''quantity_reserved'', NotNull, Default ''0''),
        (''reorder_point'', NotNull, Default ''0''), (''last_count_date'', Nullable, NoDefault),
        (''created_at'', NotNull, Default ''CURRENT_TIMESTAMP''),
        (''updated_at'', NotNull, NoDefault)]),
     (''users'',
       [(''id'', NotNull, NoDefault), (''tenant_id'', NotNull, NoDefault),
        (''email'', NotNull, NoDefault), (''name'', NotNull, NoDefault),
        (''role'', NotNull, NoDefault), (''status'', NotNull, Default ''ACTIVE''),
        (''last_login_at'', Nullable, NoDefault),
        (''created_at'', NotNull, Default ''CURRENT_TIMESTAMP''),
        (''updated_at'', NotNull, NoDefault)]),
     (''risk_event_suppliers'',
       [(''id'', NotNull, NoDefault), (''tenant_id'', NotNull, NoDefault),
        (''risk_event_id'', NotNull, NoDefault), (''supplier_id'', NotNull, NoDefault),
        (''created_at'', NotNull, Default ''CURRENT_TIMESTAMP'')]),
     (''risk_event_products'',
       [(''id'', NotNull, NoDefault), (''tenant_id'', NotNull, NoDefault),
        (''risk_event_id'', NotNull, NoDefault), (''product_id'', NotNull, NoDefault),
        (''created_at'', NotNull, Default ''CURRENT_TIMESTAMP'')]),
     (''risk_event_locations'',
       [(''id'', NotNull, NoDefault), (''tenant_id'', NotNull, NoDefault),
        (''risk_event_id'', NotNull, NoDefault), (''location_id'', NotNull, NoDefault),
        (''created_at'', NotNull, Default ''CURRENT_TIMESTAMP'')]),
     (''risk_event_routes'',
       [(''id'', NotNull, NoDefault), (''tenant_id'', NotNull, NoDefault),
        (''risk_event_id'', NotNull, NoDefault), (''route_id'', NotNull, NoDefault),
        (''created_at'', NotNull, Default ''CURRENT_TIMESTAMP'')])]"

record unique_index =
  idx_name :: string
  idx_table :: string
  idx_columns :: "string list"

text \<open>The \<^verbatim>\<open>PRIMARY KEY\<close> constraints and the \<^verbatim>\<open>CREATE UNIQUE INDEX\<close> statements.\<close>

definition unique_indexes :: "unique_index list" where
  "unique_indexes =
    [\<lparr>idx_name = ''suppliers_pkey'', idx_table = ''suppliers'', idx_columns = [''id'']\<rparr>,
     \<lparr>idx_name = ''products_pkey'', idx_table = ''products'', idx_columns = [''id'']\<rparr>,
     \<lparr>idx_name = ''locations_pkey'', idx_table = ''locations'', idx_columns = [''id'']\<rparr>,
     \<lparr>idx_name = ''shipment_routes_pkey'', idx_table = ''shipment_routes'',
      idx_columns = [''id'']\<rparr>,
     \<lparr>idx_name = ''risk_events_pkey'', idx_table = ''risk_events'', idx_columns = [''id'']\<rparr>,
     \<lparr>idx_name = ''inventory_pkey'', idx_table = ''inventory'', idx_columns = [''id'']\<rparr>,
     \<lparr>idx_name = ''users_pkey'', idx_table = ''users'', idx_columns = [''id'']\<rparr>,
     \<lparr>idx_name = ''risk_event_suppliers_pkey'', idx_table = ''risk_event_suppliers'',
      idx_columns = [''id'']\<rparr>,
     \<lparr>idx_name = ''risk_event_products_pkey'', idx_table = ''risk_event_products'',
      idx_columns = [''id'']\<rparr>,
     \<lparr>idx_name = ''risk_event_locations_pkey'', idx_table = ''risk_event_locations'',
      idx_columns = [''id'']\<rparr>,
     \<lparr>idx_name = ''risk_event_routes_pkey'', idx_table = ''risk_event_routes'',
      idx_columns = [''id'']\<rparr>,
     \<lparr>idx_name = ''suppliers_code_key'', idx_table = ''suppliers'', idx_columns = [''code'']\<rparr>,
     \<lparr>idx_name = ''products_sku_key'', idx_table = ''products'', idx_columns = [''sku'']\<rparr>,
     \<lparr>idx_name = ''locations_code_key'', idx_table = ''locations'', idx_columns = [''code'']\<rparr>,
     \<lparr>idx_name = ''shipment_routes_tenant_id_origin_location_id_destination_lo_key'',
      idx_table = ''shipment_routes'',
      idx_columns =
        [''tenant_id'', ''origin_location_id'', ''destination_location_id'', ''transport_mode'']\<rparr>,
     \<lparr>idx_name = ''inventory_tenant_id_product_id_location_id_key'', idx_table = ''inventory'',
      idx_columns = [''tenant_id'', ''product_id'', ''location_id'']\<rparr>,
     \<lparr>idx_name = ''users_email_key'', idx_table = ''users'', idx_columns = [''email'']\<rparr>,
     \<lparr>idx_name = ''risk_event_suppliers_risk_event_id_supplier_id_key'',
      idx_table = ''risk_event_suppliers'', idx_columns = [''risk_event_id'', ''supplier_id'']\<rparr>,
     \<lparr>idx_name = ''risk_event_products_risk_event_id_product_id_key'',
      idx_table = ''risk_event_products'', idx_columns = [''risk_event_id'', ''product_id'']\<rparr>,
     \<lparr>idx_name = ''risk_event_locations_risk_event_id_location_id_key'',
      idx_table = ''risk_event_locations'', idx_columns = [''risk_event_id'', ''location_id'']\<rparr>,
     \<lparr>idx_name = ''risk_event_routes_risk_event_id_route_id_key'',
      idx_table = ''risk_event_routes'', idx_columns = [''risk_event_id'', ''route_id'']\<rparr>]"

datatype on_delete = Restrict | Cascade

text \<open>
  \<^verbatim>\<open>ALTER TABLE fk_table ADD CONSTRAINT fk_name FOREIGN KEY (fk_column)
  REFERENCES fk_references("id") ON DELETE fk_on_delete\<close>; every foreign key of the file
  references the \<^verbatim>\<open>id\<close> column of its parent.
\<close>

record foreign_key =
  fk_name :: string
  fk_table :: string
  fk_column :: string
  fk_references :: string
  fk_on_delete :: on_delete

definition foreign_keys :: "foreign_key list" where
  "foreign_keys =
    [\<lparr>fk_name = ''products_supplier_id_fkey'', fk_table = ''products'',
      fk_column = ''supplier_id'', fk_references = ''suppliers'', fk_on_delete = Restrict\<rparr>,
     \<lparr>fk_name = ''shipment_routes_origin_location_id_fkey'', fk_table = ''shipment_routes'',
      fk_column = ''origin_location_id'', fk_references = ''locations'', fk_on_delete = Restrict\<rparr>,
     \<lparr>fk_name = ''shipment_routes_destination_location_id_fkey'', fk_table = ''shipment_routes'',
      fk_column = ''destination_location_id'', fk_references = ''locations'',
      fk_on_delete = Restrict\<rparr>,
     \<lparr>fk_name = ''inventory_product_id_fkey'', fk_table = ''inventory'',
      fk_column = ''product_id'', fk_references = ''products'', fk_on_delete = Cascade\<rparr>,
     \<lparr>fk_name = ''inventory_location_id_fkey'', fk_table = ''inventory'',
      fk_column = ''location_id'', fk_references = ''locations'', fk_on_delete = Cascade\<rparr>,
     \<lparr>fk_name = ''risk_event_suppliers_risk_event_id_fkey'', fk_table = ''risk_event_suppliers'',
      fk_column = ''risk_event_id'', fk_references = ''risk_events'', fk_on_delete = Cascade\<rparr>,
     \<lparr>fk_name = ''risk_event_suppliers_supplier_id_fkey'', fk_table = ''risk_event_suppliers'',
      fk_column = ''supplier_id'', fk_references = ''suppliers'', fk_on_delete = Cascade\<rparr>,
     \<lparr>fk_name = ''risk_event_products_risk_event_id_fkey'', fk_table = ''risk_event_products'',
      fk_column = ''risk_event_id'', fk_references = ''risk_events'', fk_on_delete = Cascade\<rparr>,
     \<lparr>fk_name = ''risk_event_products_product_id_fkey'', fk_table = ''risk_event_products'',
      fk_column = ''product_id'', fk_references = ''products'', fk_on_delete = Cascade\<rparr>,
     \<lparr>fk_name = ''risk_event_locations_risk_event_id_fkey'', fk_table = ''risk_event_locations'',
      fk_column = ''risk_event_id'', fk_references = ''risk_events'', fk_on_delete = Cascade\<rparr>,
     \<lparr>fk_name = ''risk_event_locations_location_id_fkey'', fk_table = ''risk_event_locations'',
      fk_column = ''location_id'', fk_references = ''locations'', fk_on_delete = Cascade\<rparr>,
     \<lparr>fk_name = ''risk_event_routes_risk_event_id_fkey'', fk_table = ''risk_event_routes'',
      fk_column = ''risk_event_id'', fk_references = ''risk_events'', fk_on_delete = Cascade\<rparr>,
     \<lparr>fk_name = ''risk_event_routes_route_id_fkey'', fk_table = ''risk_event_routes'',
      fk_column = ''route_id'', fk_references = ''shipment_routes'', fk_on_delete = Cascade\<rparr>]"


section \<open>Inserting and deleting rows under the schema\<close>

text \<open>
  A row gives a text value to some columns; a column it does not mention is \<^verbatim>\<open>NULL\<close>
  (or takes its default).  The database is the list of rows of each table.
\<close>

type_synonym sql_row = "(string \<times> string) list"

type_synonym database = "string \<Rightarrow> sql_row list"

datatype sql_error =
    UndefinedTable string
  | UndefinedColumn string
  | SqlConstraintViolation string

definition columns_of :: "string \<Rightarrow> column list" where
  "columns_of t = (case map_of tables t of None \<Rightarrow> [] | Some cs \<Rightarrow> cs)"

definition required_columns :: "string \<Rightarrow> string list" where
  "required_columns t =
     map fst (filter (\<lambda>(c, n, d). n = NotNull \<and> d = NoDefault) (columns_of t))"

text \<open>The first column of the row that the table does not have.\<close>

definition undefined_column :: "string \<Rightarrow> sql_row \<Rightarrow> string option" where
  "undefined_column t r = find (\<lambda>c. c \<notin> set (map fst (columns_of t))) (map fst r)"

text \<open>The first \<^verbatim>\<open>NOT NULL\<close> column without default that the row leaves out.\<close>

definition not_null_violation :: "string \<Rightarrow> sql_row \<Rightarrow> string option" where
  "not_null_violation t r = find (\<lambda>c. map_of r c = None) (required_columns t)"

text \<open>
  Two rows collide on a key when both have a value in each of its columns and the values
  agree; a \<^verbatim>\<open>NULL\<close> never collides.
\<close>

definition collides :: "string list \<Rightarrow> sql_row \<Rightarrow> sql_row \<Rightarrow> bool" where
  "collides cols r r' = list_all (\<lambda>c. map_of r c \<noteq> None \<and> map_of r' c = map_of r c) cols"

definition unique_violation :: "string \<Rightarrow> sql_row \<Rightarrow> database \<Rightarrow> unique_index option" where
  "unique_violation t r db =
     find (\<lambda>i. idx_table i = t \<and> list_ex (collides (idx_columns i) r) (db t)) unique_indexes"

definition has_id :: "string \<Rightarrow> sql_row \<Rightarrow> bool" where
  "has_id v r = (map_of r ''id'' = Some v)"

definition foreign_key_violation :: "string \<Rightarrow> sql_row \<Rightarrow> database \<Rightarrow> foreign_key option" where
  "foreign_key_violation t r db =
     find (\<lambda>fk. fk_table fk = t \<and>
                (case map_of r (fk_column fk) of
                   None \<Rightarrow> False
                 | Some v \<Rightarrow> \<not> list_ex (has_id v) (db (fk_references fk))))
          foreign_keys"

text \<open>
  \<^verbatim>\<open>INSERT\<close>: the row is stored when it names only columns of the table, fills every
  required column, collides with no stored row on any unique key, and each foreign key
  it sets names a stored parent.  Otherwise the statement fails and the database is
  unchanged.
\<close>

definition insert_row :: "string \<Rightarrow> sql_row \<Rightarrow> database \<Rightarrow> (sql_error + sql_row) \<times> database" where
  "insert_row t r db =
     (if map_of tables t = None then (Inl (UndefinedTable t), db)
      else case undefined_column t r of
        Some c \<Rightarrow> (Inl (UndefinedColumn c), db)
      | None \<Rightarrow>
     (case not_null_violation t r of
        Some c \<Rightarrow> (Inl (SqlConstraintViolation c), db)
      | None \<Rightarrow>
     (case unique_violation t r db of
        Some i \<Rightarrow> (Inl (SqlConstraintViolation (idx_name i)), db)
      | None \<Rightarrow>
     (case foreign_key_violation t r db of
        Some fk \<Rightarrow> (Inl (SqlConstraintViolation (fk_name fk)), db)
      | None \<Rightarrow> (Inr r, db(t := db t @ [r]))))))"

definition references_row :: "foreign_key \<Rightarrow> string \<Rightarrow> sql_row \<Rightarrow> bool" where
  "references_row fk v r = (map_of r (fk_column fk) = Some v)"

text \<open>The first \<^verbatim>\<open>ON DELETE RESTRICT\<close> foreign key under which a stored row references the row to delete.\<close>

definition restrict_violation :: "string \<Rightarrow> string \<Rightarrow> database \<Rightarrow> foreign_key option" where
  "restrict_violation t v db =
     find (\<lambda>fk. fk_references fk = t \<and> fk_on_delete fk = Restrict \<and>
                list_ex (references_row fk v) (db (fk_table fk)))
          foreign_keys"

text \<open>Every \<^verbatim>\<open>ON DELETE CASCADE\<close> foreign key into the table removes the rows that reference the deleted one.\<close>

definition cascade :: "string \<Rightarrow> string \<Rightarrow> database \<Rightarrow> database" where
  "cascade t v db =
     fold (\<lambda>fk d. if fk_references fk = t \<and> fk_on_delete fk = Cascade
                   then d(fk_table fk := filter (\<lambda>r. \<not> references_row fk v r) (d (fk_table fk)))
                   else d)
          foreign_keys db"

text \<open>
  \<^verbatim>\<open>DELETE FROM t WHERE id = v\<close>, returning the number of rows deleted from \<open>t\<close>.  The
  cascade goes one level deep: in this schema no foreign key references a table that a
  cascading foreign key belongs to (lemma \<open>cascade_children_unreferenced\<close>), so there is
  nothing further to delete or to restrict.
\<close>

definition delete_row :: "string \<Rightarrow> string \<Rightarrow> database \<Rightarrow> (sql_error + nat) \<times> database" where
  "delete_row t v db =
     (if map_of tables t = None then (Inl (UndefinedTable t), db)
      else if \<not> list_ex (has_id v) (db t) then (Inr 0, db)
      else case restrict_violation t v db of
        Some fk \<Rightarrow> (Inl (SqlConstraintViolation (fk_name fk)), db)
      | None \<Rightarrow>
         (Inr (length (filter (has_id v) (db t))),
          (cascade t v db)(t := filter (\<lambda>r. \<not> has_id v r) (db t))))"


section \<open>The query engine between the interceptor and the schema\<close>

text \<open>
  What \<^verbatim>\<open>next\<close> does with the forwarded \<open>params\<close>: the Prisma client turns the call
  into statements on the tables of the schema, so every constraint of
  \<^verbatim>\<open>migration.sql\<close> applies to what the services create, change and delete.  The
  Prisma schema (\<^verbatim>\<open>specs/002-data-model-schema/data-model.md\<close>) maps each model to its
  table (\<^verbatim>\<open>@@map\<close>) and each field to its column (\<^verbatim>\<open>@map\<close>); a field without
  \<^verbatim>\<open>@map\<close> is stored under its own name.
\<close>

definition model_tables :: "(string \<times> string) list" where
  "model_tables =
     [(''Supplier'', ''suppliers''),
      (''Product'', ''products''),
      (''Location'', ''locations''),
      (''ShipmentRoute'', ''shipment_routes''),
      (''RiskEvent'', ''risk_events''),
      (''Inventory'', ''inventory''),
      (''User'', ''users''),
      (''RiskEventSupplier'', ''risk_event_suppliers''),
      (''RiskEventProduct'', ''risk_event_products''),
      (''RiskEventLocation'', ''risk_event_locations''),
      (''RiskEventRoute'', ''risk_event_routes'')]"

definition field_columns :: "(string \<times> string) list" where
  "field_columns =
     [(''tenantId'', ''tenant_id''), (''contactEmail'', ''contact_email''),
      (''contactPhone'', ''contact_phone''), (''createdAt'', ''created_at''),
      (''updatedAt'', ''updated_at''), (''unitOfMeasure'', ''unit_of_measure''),
      (''leadTimeDays'', ''lead_time_days''), (''supplierId'', ''supplier_id''),
      (''postalCode'', ''postal_code''), (''originLocationId'', ''origin_location_id''),
      (''destinationLocationId'', ''destination_location_id''),
      (''transitTimeDays'', ''transit_time_days''),
      (''transportMode'', ''transport_mode''), (''eventType'', ''event_type''),
      (''startDate'', ''start_date''), (''resolutionDate'', ''resolution_date''),
      (''impactAssessment'', ''impact_assessment''),
      (''mitigationPlan'', ''mitigation_plan''), (''productId'', ''product_id''),
      (''locationId'', ''location_id''), (''quantityOnHand'', ''quantity_on_hand''),
      (''quantityReserved'', ''quantity_reserved''), (''reorderPoint'', ''reorder_point''),
      (''lastCountDate'', ''last_count_date''), (''lastLoginAt'', ''last_login_at''),
      (''riskEventId'', ''risk_event_id''), (''routeId'', ''route_id'')]"

definition column_of :: "string \<Rightarrow> string" where
  "column_of f = (case map_of field_columns f of None \<Rightarrow> f | Some c \<Rightarrow> c)"

text \<open>
  A scalar of a payload or a filter, as the text stored in a column; \<^verbatim>\<open>null\<close> is
  \<^verbatim>\<open>NULL\<close>.  Nested objects and arrays (relation writes such as \<^verbatim>\<open>connect\<close>, filter
  operators) are outside this model.
\<close>

definition number_text :: "int \<Rightarrow> string" where
  "number_text n = (if n < 0 then ''-'' @ index_key (nat (- n)) else index_key (nat n))"

fun cell :: "jsval \<Rightarrow> string option" where
  "cell (JString s) = Some s"
| "cell (JNumber n) = Some (number_text n)"
| "cell (JBool b) = Some (if b then ''true'' else ''false'')"
| "cell JNull = None"
| "cell (JArray xs) = None"
| "cell (JObject kvs) = None"

fun scalar :: "jsval \<Rightarrow> bool" where
  "scalar (JArray xs) = False"
| "scalar (JObject kvs) = False"
| "scalar v = True"

definition scalars_only :: "jsval option \<Rightarrow> bool" where
  "scalars_only v = list_all (\<lambda>(f, x). scalar x) (spread v)"

definition to_row :: "jsval option \<Rightarrow> sql_row" where
  "to_row d = List.map_filter (\<lambda>(f, x). map_option (Pair (column_of f)) (cell x)) (spread d)"

text \<open>
  A filter is the conjunction of its top-level properties, each an equality on one
  column; this is the form of every filter the services build themselves (\<^verbatim>\<open>{ id }\<close>,
  \<^verbatim>\<open>{ riskEventId, supplierId }\<close>) and of what the interceptor adds.
\<close>

definition matches :: "jsval option \<Rightarrow> sql_row \<Rightarrow> bool" where
  "matches w r = list_all (\<lambda>(f, x). map_of r (column_of f) = cell x) (spread w)"

text \<open>
  What the client adds to a created row.  \<^verbatim>\<open>@default(uuid())\<close>: a row without id gets
  one that no stored row of the table has; the generated value stands for the uuid.
  \<^verbatim>\<open>@updatedAt\<close> and the defaults of the schema: a column the payload leaves out takes
  the time of the call, written as the text \<^verbatim>\<open>CURRENT_TIMESTAMP\<close>, or its default.
\<close>

definition fresh_id :: "sql_row list \<Rightarrow> string" where
  "fresh_id rows =
     (case find (\<lambda>n. \<not> list_ex (has_id (''generated-'' @ index_key n)) rows)
             [0..<Suc (length rows)] of
        Some n \<Rightarrow> ''generated-'' @ index_key n
      | None \<Rightarrow> ''generated-'' @ index_key (Suc (length rows)))"

definition current_time :: string where
  "current_time = ''CURRENT_TIMESTAMP''"

definition touch :: "string \<Rightarrow> sql_row \<Rightarrow> sql_row" where
  "touch t r =
     (if ''updated_at'' \<in> set (map fst (columns_of t))
      then AList.update ''updated_at'' current_time r else r)"

definition complete_row :: "string \<Rightarrow> sql_row list \<Rightarrow> sql_row \<Rightarrow> sql_row" where
  "complete_row t rows r =
     (let r1 = (if map_of r ''id'' = None then r @ [(''id'', fresh_id rows)] else r);
          r2 = (if map_of r1 ''updated_at'' = None then touch t r1 else r1)
      in r2 @ List.map_filter
           (\<lambda>(c, n, d). case d of
                NoDefault \<Rightarrow> None
              | Default v \<Rightarrow> if map_of r2 c = None then Some (c, v) else None)
           (columns_of t))"

text \<open>
  The changes of an \<^verbatim>\<open>update\<close> payload applied to a stored row: a scalar overwrites
  the column, \<^verbatim>\<open>null\<close> empties it.
\<close>

definition apply_data :: "jsval option \<Rightarrow> sql_row \<Rightarrow> sql_row" where
  "apply_data d r =
     fold (\<lambda>(f, x) r'. case cell x of
                          Some v \<Rightarrow> AList.update (column_of f) v r'
                        | None \<Rightarrow> AList.delete (column_of f) r')
          (spread d) r"

fun update_first :: "('a \<Rightarrow> bool) \<Rightarrow> ('a \<Rightarrow> 'a) \<Rightarrow> 'a list \<Rightarrow> 'a list" where
  "update_first P f [] = []"
| "update_first P f (x # xs) = (if P x then f x # xs else x # update_first P f xs)"

fun remove_first :: "('a \<Rightarrow> bool) \<Rightarrow> 'a list \<Rightarrow> 'a list" where
  "remove_first P [] = []"
| "remove_first P (x # xs) = (if P x then xs else x # remove_first P xs)"

text \<open>Deleting several rows in one statement: all of them, or none when one is restricted.\<close>

fun delete_all :: "string \<Rightarrow> string list \<Rightarrow> database \<Rightarrow> sql_error + database" where
  "delete_all t [] db = Inr db"
| "delete_all t (v # vs) db =
     (case delete_row t v db of
        (Inl e, db') \<Rightarrow> Inl e
      | (Inr n, db') \<Rightarrow> delete_all t vs db')"

fun storage_error :: "sql_error \<Rightarrow> error" where
  "storage_error (UndefinedTable t) = InvalidRequest t"
| "storage_error (UndefinedColumn c) = InvalidRequest c"
| "storage_error (SqlConstraintViolation n) = ConstraintViolation n"

type_synonym store = database

datatype result =
    Record sql_row
  | RecordOrNull "sql_row option"
  | Records "sql_row list"
  | Count nat
  | NotModelled

text \<open>
  The operations the services use.  A read returns the stored rows that the filter
  selects.  \<^verbatim>\<open>create\<close> is an \<^verbatim>\<open>INSERT\<close> of the completed row.  \<^verbatim>\<open>update\<close> and
  \<^verbatim>\<open>delete\<close> act on the first row the filter selects and fail with not-found when
  there is none; the updated row must satisfy the constraints against the other rows,
  and the delete follows the \<^verbatim>\<open>ON DELETE\<close> rules.  A failed statement leaves the
  database as it was.  A call outside the model (no model, an unknown model, a nested
  payload or filter, a change of id, any other action) is answered \<open>NotModelled\<close>.
\<close>

definition storage :: "params \<Rightarrow> store \<Rightarrow> (error + result) \<times> store" where
  "storage p db =
     (case model p of
        None \<Rightarrow> (Inr NotModelled, db)
      | Some m \<Rightarrow>
     (case map_of model_tables m of
        None \<Rightarrow> (Inr NotModelled, db)
      | Some t \<Rightarrow>
         (let w = args_where (args p); d = args_data (args p); rows = db t in
          if \<not> scalars_only w \<or> \<not> scalars_only d then (Inr NotModelled, db)
          else if action p = ''findMany'' then (Inr (Records (filter (matches w) rows)), db)
          else if action p \<in> set [''findUnique'', ''findFirst''] then
            (Inr (RecordOrNull (find (matches w) rows)), db)
          else if action p \<in> set [''findUniqueOrThrow'', ''findFirstOrThrow''] then
            (case find (matches w) rows of
               None \<Rightarrow> (Inl NotFound, db)
             | Some r \<Rightarrow> (Inr (Record r), db))
          else if action p = ''count'' then (Inr (Count (length (filter (matches w) rows))), db)
          else if action p = ''create'' then
            (case insert_row t (complete_row t rows (to_row d)) db of
               (Inl e, db') \<Rightarrow> (Inl (storage_error e), db)
             | (Inr r, db') \<Rightarrow> (Inr (Record r), db'))
          else if action p = ''update'' then
            (case find (matches w) rows of
               None \<Rightarrow> (Inl NotFound, db)
             | Some r \<Rightarrow>
                (let r' = touch t (apply_data d r) in
                 if map_of r' ''id'' \<noteq> map_of r ''id'' then (Inr NotModelled, db)
                 else case fst (insert_row t r' (db(t := remove_first (matches w) rows))) of
                    Inl e \<Rightarrow> (Inl (storage_error e), db)
                  | Inr r'' \<Rightarrow>
                     (Inr (Record r'), db(t := update_first (matches w) (\<lambda>old. r') rows))))
          else if action p = ''delete'' then
            (case find (matches w) rows of
               None \<Rightarrow> (Inl NotFound, db)
             | Some r \<Rightarrow>
                (case map_of r ''id'' of
                   None \<Rightarrow> (Inr NotModelled, db)
                 | Some v \<Rightarrow>
                    (case delete_row t v db of
                       (Inl e, db') \<Rightarrow> (Inl (storage_error e), db)
                     | (Inr n, db') \<Rightarrow> (Inr (Record r), db'))))
          else if action p = ''deleteMany'' then
            (case delete_all t (List.map_filter (\<lambda>r. map_of r ''id'') (filter (matches w) rows))
                    db of
               Inl e \<Rightarrow> (Inl (storage_error e), db)
             | Inr db' \<Rightarrow> (Inr (Count (length (filter (matches w) rows))), db'))
          else (Inr NotModelled, db))))"

text \<open>A service call as the client runs it: through the interceptor, then to storage.\<close>

definition run :: "tenant_ctx \<Rightarrow> params \<Rightarrow> store \<Rightarrow> (error + result) \<times> store" where
  "run ctx p db = tenantIsolationMiddleware ctx p storage db"


section \<open>Inputs used in the statements\<close>

text \<open>The actions whose case in the \<^verbatim>\<open>switch\<close> rewrites \<^verbatim>\<open>params.args.where\<close>.\<close>

definition where_actions :: "string list" where
  "where_actions =
     [''findUnique'', ''findFirst'', ''findFirstOrThrow'', ''findUniqueOrThrow'',
      ''findMany'', ''count'', ''aggregate'', ''groupBy'',
      ''update'', ''updateMany'', ''upsert'', ''delete'', ''deleteMany'']"

definition empty_store :: store where
  "empty_store = (\<lambda>m. [])"

definition empty_database :: database where
  "empty_database = (\<lambda>t. [])"

text \<open>
  A raw statement as \<^verbatim>\<open>prisma.$executeRawUnsafe\<close> issues it (the test setup truncates the
  tables this way): no model, action \<^verbatim>\<open>executeRaw\<close>.
\<close>

definition raw_statement :: "string \<Rightarrow> params" where
  "raw_statement q =
     \<lparr>model = None, action = ''executeRaw'',
      args = \<lparr>args_where = None, args_data = None, args_rest = [(''query'', JString q)]\<rparr>\<rparr>"




text \<open>A route payload of tenant A, as a caller passes it to \<^verbatim>\<open>shipmentRouteService.create\<close>.\<close>

definition route_a :: jsval where
  "route_a = JObject
     [(''id'', JString ''route-a''), (''tenantId'', JString ''tenant-a-001''),
      (''originLocationId'', JString ''loc-a1''), (''destinationLocationId'', JString ''loc-a2''),
      (''transitTimeDays'', JNumber 5), (''transportMode'', JString ''TRUCK'')]"

text \<open>A route payload whose origin and destination are the same location, and the row it becomes.\<close>

definition loop_route :: jsval where
  "loop_route = JObject
     [(''tenantId'', JString ''tenant-a-001''),
      (''originLocation'', JObject [(''connect'', JObject [(''id'', JString ''loc-1'')])]),
      (''destinationLocation'', JObject [(''connect'', JObject [(''id'', JString ''loc-1'')])]),
      (''transitTimeDays'', JNumber 3), (''transportMode'', JString ''TRUCK'')]"

definition loop_route_row :: sql_row where
  "loop_route_row =
     [(''id'', ''route-2''), (''tenant_id'', ''tenant-a-001''),
      (''origin_location_id'', ''loc-1''), (''destination_location_id'', ''loc-1''),
      (''transit_time_days'', ''3''), (''transport_mode'', ''TRUCK''),
      (''updated_at'', ''2025-11-29 22:03:05'')]"

text \<open>
  A small database, built by inserting one row after the other: a supplier with a product,
  two locations with a route between them, an inventory row, and a risk event linked to
  each of the four.
\<close>

definition seed_rows :: "(string \<times> sql_row) list" where
  "seed_rows =
    [(''suppliers'',
        [(''id'', ''sup-1''), (''tenant_id'', ''tenant-a-001''), (''code'', ''SUP-001''),
         (''name'', ''Acme''), (''country'', ''USA''), (''updated_at'', ''2025-11-29 22:03:05'')]),
     (''products'',
        [(''id'', ''prod-1''), (''tenant_id'', ''tenant-a-001''), (''sku'', ''SKU-001''),
         (''name'', ''Widget''), (''category'', ''Electronics''), (''lead_time_days'', ''30''),
         (''supplier_id'', ''sup-1''), (''updated_at'', ''2025-11-29 22:03:05'')]),
     (''locations'',
        [(''id'', ''loc-1''), (''tenant_id'', ''tenant-a-001''), (''code'', ''LOC-001''),
         (''name'', ''Port''), (''type'', ''PORT''), (''country'', ''USA''),
         (''updated_at'', ''2025-11-29 22:03:05'')]),
     (''locations'',
        [(''id'', ''loc-2''), (''tenant_id'', ''tenant-a-001''), (''code'', ''LOC-002''),
         (''name'', ''Warehouse''), (''type'', ''WAREHOUSE''), (''country'', ''USA''),
         (''updated_at'', ''2025-11-29 22:03:05'')]),
     (''shipment_routes'',
        [(''id'', ''route-1''), (''tenant_id'', ''tenant-a-001''),
         (''origin_location_id'', ''loc-1''), (''destination_location_id'', ''loc-2''),
         (''transit_time_days'', ''5''), (''transport_mode'', ''TRUCK''),
         (''updated_at'', ''2025-11-29 22:03:05'')]),
     (''inventory'',
        [(''id'', ''inv-1''), (''tenant_id'', ''tenant-a-001''), (''product_id'', ''prod-1''),
         (''location_id'', ''loc-1''), (''updated_at'', ''2025-11-29 22:03:05'')]),
     (''risk_events'',
        [(''id'', ''event-1''), (''tenant_id'', ''tenant-a-001''), (''event_type'', ''WEATHER''),
         (''severity'', ''HIGH''), (''start_date'', ''2025-11-29 22:03:05''),
         (''title'', ''Storm''), (''description'', ''Storm at the port''),
         (''updated_at'', ''2025-11-29 22:03:05'')]),
     (''risk_event_suppliers'',
        [(''id'', ''res-1''), (''tenant_id'', ''tenant-a-001''), (''risk_event_id'', ''event-1''),
         (''supplier_id'', ''sup-1'')]),
     (''risk_event_products'',
        [(''id'', ''rep-1''), (''tenant_id'', ''tenant-a-001''), (''risk_event_id'', ''event-1''),
         (''product_id'', ''prod-1'')]),
     (''risk_event_locations'',
        [(''id'', ''rel-1''), (''tenant_id'', ''tenant-a-001''), (''risk_event_id'', ''event-1''),
         (''location_id'', ''loc-1'')]),
     (''risk_event_routes'',
        [(''id'', ''rer-1''), (''tenant_id'', ''tenant-a-001''), (''risk_event_id'', ''event-1''),
         (''route_id'', ''route-1'')])]"

definition example_database :: database where
  "example_database = fold (\<lambda>(t, r) db. snd (insert_row t r db)) seed_rows empty_database"

text \<open>Two supplier rows of different tenants with the same code.\<close>

definition supplier_row_a :: sql_row where
  "supplier_row_a =
     [(''id'', ''sup-a''), (''tenant_id'', ''tenant-a-001''), (''code'', ''SUP-001''),
      (''name'', ''Acme''), (''country'', ''USA''), (''updated_at'', ''2025-11-29 22:03:05'')]"

definition supplier_row_b :: sql_row where
  "supplier_row_b =
     [(''id'', ''sup-b''), (''tenant_id'', ''tenant-b-001''), (''code'', ''SUP-001''),
      (''name'', ''Bolt''), (''country'', ''China''), (''updated_at'', ''2025-11-29 22:03:05'')]"

text \<open>
  A store that holds what tenant A owns before the calls of the statements below: two
  locations, a supplier and a risk event, each row with all its \<^verbatim>\<open>NOT NULL\<close> columns.
\<close>

definition tenant_a_rows :: "(string \<times> sql_row) list" where
  "tenant_a_rows =
    [(''locations'',
        [(''id'', ''loc-a1''), (''tenant_id'', ''tenant-a-001''), (''code'', ''LOC-ROUTE-A1''),
         (''name'', ''Origin A''), (''type'', ''PORT''), (''country'', ''USA''),
         (''status'', ''ACTIVE''), (''created_at'', ''2025-11-29 22:03:05''),
         (''updated_at'', ''2025-11-29 22:03:05'')]),
     (''locations'',
        [(''id'', ''loc-a2''), (''tenant_id'', ''tenant-a-001''), (''code'', ''LOC-ROUTE-A2''),
         (''name'', ''Dest A''), (''type'', ''WAREHOUSE''), (''country'', ''USA''),
         (''status'', ''ACTIVE''), (''created_at'', ''2025-11-29 22:03:05''),
         (''updated_at'', ''2025-11-29 22:03:05'')]),
     (''suppliers'',
        [(''id'', ''sup-1''), (''tenant_id'', ''tenant-a-001''), (''code'', ''SUP-001''),
         (''name'', ''Acme''), (''country'', ''USA''), (''rating'', ''3''),
         (''created_at'', ''2025-11-29 22:03:05''), (''updated_at'', ''2025-11-29 22:03:05'')]),
     (''risk_events'',
        [(''id'', ''event-1''), (''tenant_id'', ''tenant-a-001''), (''event_type'', ''WEATHER''),
         (''severity'', ''HIGH''), (''status'', ''ACTIVE''),
         (''start_date'', ''2025-11-29 22:03:05''), (''title'', ''Storm''),
         (''description'', ''Storm at the port''), (''created_at'', ''2025-11-29 22:03:05''),
         (''updated_at'', ''2025-11-29 22:03:05'')])]"

definition tenant_a_store :: store where
  "tenant_a_store = fold (\<lambda>(t, r) db. snd (insert_row t r db)) tenant_a_rows empty_store"

text \<open>The store after tenant A has created \<open>route_a\<close>, and after tenant A has linked the supplier to the risk event.\<close>

definition store_with_route :: store where
  "store_with_route =
     snd (run (Some ''tenant-a-001'') (ShipmentRouteService_create route_a) tenant_a_store)"

definition store_with_link :: store where
  "store_with_link =
     snd (run (Some ''tenant-a-001'')
            (RiskEventService_addSupplier ''event-1'' ''sup-1'' ''tenant-a-001'') tenant_a_store)"


text \<open>
  An operation on an entity type outside the tenant-scoped set: it names no model, or a
  model whose name, whatever its capitals, is none of the eleven of the schema.
\<close>

definition outside_tenant_scope :: "params \<Rightarrow> bool" where
  "outside_tenant_scope p =
     (case model p of
        None \<Rightarrow> True
      | Some m \<Rightarrow> toLowerCase m \<notin> set (map toLowerCase prisma_models))"


section \<open>Which models the interceptor recognises\<close>

text \<open>
  The model name is lower-cased before it is looked up in \<open>tenantedModels\<close>, and six
  entries of that list contain a capital letter.  No lower-cased name can equal one of
  them, so of the eleven models of the schema the interceptor treats five as tenant-scoped.
\<close>

lemma toLowerCase_char_not_upper:
  "toLowerCase_char c \<notin> set ''ABCDEFGHIJKLMNOPQRSTUVWXYZ''"
  by (simp add: toLowerCase_char_def)

lemma toLowerCase_no_upper:
  "c \<in> set (toLowerCase m) \<Longrightarrow> c \<notin> set ''ABCDEFGHIJKLMNOPQRSTUVWXYZ''"
  unfolding toLowerCase_def using toLowerCase_char_not_upper by fastforce

lemma never_lowercase:
  assumes "c \<in> set s" and "c \<in> set ''ABCDEFGHIJKLMNOPQRSTUVWXYZ''"
  shows "toLowerCase m \<noteq> s"
  using assms toLowerCase_no_upper by blast

lemma unreachable_entries:
  "toLowerCase m \<notin> set [''shipmentRoute'', ''riskEvent'', ''riskEventSupplier'',
      ''riskEventProduct'', ''riskEventLocation'', ''riskEventRoute'']"
proof -
  have "toLowerCase m \<noteq> ''shipmentRoute''"
    by (rule never_lowercase [of "CHR ''R''"]) simp_all
  moreover have "toLowerCase m \<noteq> ''riskEvent''"
    by (rule never_lowercase [of "CHR ''E''"]) simp_all
  moreover have "toLowerCase m \<noteq> ''riskEventSupplier''"
    by (rule never_lowercase [of "CHR ''E''"]) simp_all
  moreover have "toLowerCase m \<noteq> ''riskEventProduct''"
    by (rule never_lowercase [of "CHR ''E''"]) simp_all
  moreover have "toLowerCase m \<noteq> ''riskEventLocation''"
    by (rule never_lowercase [of "CHR ''E''"]) simp_all
  moreover have "toLowerCase m \<noteq> ''riskEventRoute''"
    by (rule never_lowercase [of "CHR ''E''"]) simp_all
  ultimately show ?thesis by simp
qed

lemma recognised_models:
  "filter (\<lambda>m. isTenantedModel (prisma_call m [] None None [])) prisma_models =
     [''Supplier'', ''Product'', ''Location'', ''Inventory'', ''User'']"
  by code_simp


text \<open>With a tenant set, any operation on one of the other six models is forwarded as it came.\<close>

lemma unrecognised_models:
  "list_all (\<lambda>m. toLowerCase m \<notin> set tenantedModels)
     [''ShipmentRoute'', ''RiskEvent'', ''RiskEventSupplier'', ''RiskEventProduct'',
      ''RiskEventLocation'', ''RiskEventRoute'']"
  by code_simp

lemma unrecognised_forwarded:
  assumes "model p = Some m"
    and "m \<in> set [''ShipmentRoute'', ''RiskEvent'', ''RiskEventSupplier'', ''RiskEventProduct'',
                  ''RiskEventLocation'', ''RiskEventRoute'']"
    and "truthy (getCurrentTenant ctx)"
  shows "intercept ctx p = Inr p"
proof -
  from unrecognised_models assms(2) have "toLowerCase m \<notin> set tenantedModels"
    unfolding list_all_iff by (rule bspec)
  with assms(1) have "\<not> isTenantedModel p"
    by (simp add: isTenantedModel_def)
  with assms(3) show ?thesis
    by (simp add: intercept_def Let_def)
qed


section \<open>What the interceptor forwards for a recognised model\<close>

lemma intercept_recognised:
  "truthy (getCurrentTenant ctx) \<Longrightarrow> isTenantedModel p \<Longrightarrow>
   intercept ctx p = Inr (rewrite_params (getCurrentTenant ctx) p)"
  by (simp add: intercept_def Let_def)

lemma rewrite_where_actions:
  "action p \<in> set where_actions \<Longrightarrow> rewrite_params t p = inject_where t p"
  by (auto simp add: where_actions_def rewrite_params_def)

lemma map_of_update_same: "map_of (AList.update k v al) k = Some v"
  by (simp add: update_conv')

text \<open>The forwarded filter carries the active tenant, whatever the caller's filter said.\<close>

lemma forwarded_where_scoped:
  assumes "truthy (getCurrentTenant ctx)" and "isTenantedModel p"
    and "action p \<in> set where_actions"
  shows "\<exists>p' w. intercept ctx p = Inr p' \<and> args_where (args p') = Some (JObject w) \<and>
           map_of w ''tenantId'' = Some (tenant_value (getCurrentTenant ctx))"
  using assms
  by (simp add: intercept_recognised rewrite_where_actions inject_where_def map_of_update_same)

text \<open>Two filters that agree on every property but \<^verbatim>\<open>tenantId\<close> are forwarded as the same filter.\<close>

lemma forwarded_where_independent:
  assumes "\<forall>k. k \<noteq> ''tenantId'' \<longrightarrow> map_of (spread w1) k = map_of (spread w2) k"
  shows "map_of (AList.update ''tenantId'' v (spread w1)) =
         map_of (AList.update ''tenantId'' v (spread w2))"
  using assms by (auto simp add: update_conv' fun_eq_iff)

text \<open>A \<^verbatim>\<open>create\<close> payload, and every record of a \<^verbatim>\<open>createMany\<close> array, is stamped.\<close>

lemma create_stamped:
  assumes "truthy (getCurrentTenant ctx)" and "isTenantedModel p" and "action p = ''create''"
  shows "\<exists>p' d. intercept ctx p = Inr p' \<and> args_data (args p') = Some (JObject d) \<and>
           map_of d ''tenantId'' = Some (tenant_value (getCurrentTenant ctx))"
  using assms
  by (simp add: intercept_recognised rewrite_params_def inject_data_def map_of_update_same)

lemma createMany_stamped:
  assumes "truthy (getCurrentTenant ctx)" and "isTenantedModel p"
    and "action p = ''createMany''" and "args_data (args p) = Some (JArray records)"
  shows "\<exists>p' ds. intercept ctx p = Inr p' \<and> args_data (args p') = Some (JArray ds) \<and>
           length ds = length records \<and>
           (\<forall>d\<in>set ds. \<exists>kvs. d = JObject kvs \<and>
              map_of kvs ''tenantId'' = Some (tenant_value (getCurrentTenant ctx)))"
  using assms
  by (auto simp add: intercept_recognised rewrite_params_def inject_data_many_def
        map_of_update_same)

text \<open>A row that the forwarded filter selects belongs to the active tenant.\<close>

lemma column_of_tenantId: "column_of ''tenantId'' = ''tenant_id''"
  by code_simp

lemma matches_field:
  assumes "matches (Some (JObject w)) r" and "map_of w f = Some x"
  shows "map_of r (column_of f) = cell x"
proof -
  from assms(2) have "(f, x) \<in> set w" by (rule map_of_SomeD)
  with assms(1) show ?thesis by (auto simp add: matches_def list_all_iff)
qed

lemma scoped_filter_selects_own_rows:
  assumes "matches (args_where (args (inject_where (Some t) p))) r"
  shows "map_of r ''tenant_id'' = Some t"
proof -
  from assms have "matches (Some (JObject (AList.update ''tenantId'' (JString t)
      (spread (args_where (args p)))))) r"
    by (simp add: inject_where_def)
  from matches_field [OF this map_of_update_same] show ?thesis
    by (simp add: column_of_tenantId)
qed

text \<open>On a recognised model \<^verbatim>\<open>findMany\<close> returns rows of the active tenant only.\<close>

lemma recognised_findMany_isolated:
  assumes "truthy (Some t2)" and "isTenantedModel p" and "action p = ''findMany''"
    and "run (Some t2) p db = (Inr (Records rs), db')"
  shows "db' = db \<and> (\<forall>r\<in>set rs. map_of r ''tenant_id'' = Some t2)"
proof -
  have fwd: "intercept (Some t2) p = Inr (inject_where (Some t2) p)"
    using assms(1-3) by (simp add: intercept_def Let_def getCurrentTenant_def rewrite_params_def)
  have act: "action (inject_where (Some t2) p) = ''findMany''"
    using assms(3) by (simp add: inject_where_def)
  from assms(4) show ?thesis
    using scoped_filter_selects_own_rows [of t2 p]
    by (auto simp add: run_def tenantIsolationMiddleware_def fwd storage_def act Let_def
          split: option.splits if_splits)
qed

text \<open>
  On a recognised model an \<^verbatim>\<open>update\<close> whose filter selects only rows of other tenants
  is reported as not-found and changes nothing.
\<close>

lemma update_appends:
  "k \<notin> fst ` set al \<Longrightarrow> AList.update k v al = al @ [(k, v)]"
  by (induction al) auto

lemma scalars_only_inject:
  assumes "scalars_only (args_where (args p))"
  shows "scalars_only (args_where (args (inject_where (Some t) p)))"
proof -
  have "list_all (\<lambda>(f, x). scalar x) al \<Longrightarrow>
        list_all (\<lambda>(f, x). scalar x) (AList.update ''tenantId'' (JString t) al)" for al
    by (induction al) auto
  with assms show ?thesis
    by (simp add: scalars_only_def inject_where_def)
qed

lemma cross_tenant_update_not_found:
  assumes "truthy (Some t2)" and "isTenantedModel p" and "action p = ''update''"
    and "model p = Some m" and "map_of model_tables m = Some t"
    and "scalars_only (args_where (args p))" and "scalars_only (args_data (args p))"
    and "''tenantId'' \<notin> fst ` set (spread (args_where (args p)))"
    and "\<forall>r\<in>set (db t). matches (args_where (args p)) r \<longrightarrow> map_of r ''tenant_id'' \<noteq> Some t2"
  shows "run (Some t2) p db = (Inl NotFound, db)"
proof -
  let ?q = "inject_where (Some t2) p"
  have fwd: "intercept (Some t2) p = Inr ?q"
    using assms(1-3) by (simp add: intercept_def Let_def getCurrentTenant_def rewrite_params_def)
  have sel: "matches (args_where (args ?q)) r \<Longrightarrow> matches (args_where (args p)) r" for r
    using assms(8) by (simp add: inject_where_def matches_def update_appends)
  have "find (matches (args_where (args ?q))) (db t) = None"
    using assms(9) scoped_filter_selects_own_rows [of t2 p] sel
    by (auto simp add: find_None_iff)
  moreover have "model ?q = Some m" and "action ?q = ''update''"
    and "args_data (args ?q) = args_data (args p)"
    using assms(3,4) by (simp_all add: inject_where_def)
  moreover note scalars_only_inject [OF assms(6), of t2] assms(5,7)
  ultimately show ?thesis
    by (simp add: run_def tenantIsolationMiddleware_def fwd storage_def Let_def)
qed

text \<open>A model outside the tenant-scoped set is not recognised by the interceptor.\<close>

lemma lower_models:
  "map toLowerCase prisma_models =
     [''supplier'', ''product'', ''location'', ''shipmentroute'', ''riskevent'', ''inventory'',
      ''user'', ''riskeventsupplier'', ''riskeventproduct'', ''riskeventlocation'',
      ''riskeventroute'']"
  by code_simp

lemma outside_not_recognised:
  assumes "outside_tenant_scope p"
  shows "\<not> isTenantedModel p"
proof (cases "model p")
  case None
  then show ?thesis by (simp add: isTenantedModel_def)
next
  case (Some m)
  with assms have "toLowerCase m \<notin> set (map toLowerCase prisma_models)"
    by (simp add: outside_tenant_scope_def)
  then have "toLowerCase m \<notin> set [''supplier'', ''product'', ''location'', ''inventory'', ''user'']"
    unfolding lower_models by simp
  with unreachable_entries [of m] have "toLowerCase m \<notin> set tenantedModels"
    by (simp add: tenantedModels_def)
  with Some show ?thesis by (simp add: isTenantedModel_def)
qed

text \<open>
  The rows of tenant A are all accepted.  Storage applies the constraints of the schema to
  what the services create: without the two locations the route is refused, and with them
  it is accepted.
\<close>

lemma tenant_a_rows_accepted:
  "map (\<lambda>t. length (tenant_a_store t)) (map fst tables) = [1, 0, 2, 0, 1, 0, 0, 0, 0, 0, 0]"
  by code_simp

lemma route_without_locations_refused:
  "fst (run (Some ''tenant-a-001'') (ShipmentRouteService_create route_a) empty_store)
     = Inl (ConstraintViolation ''shipment_routes_origin_location_id_fkey'')"
  by code_simp


section \<open>Claims about the interceptor\<close>

text \<open>
  C1 (tenant isolation).  The claim: an operation issued under tenant T2 on a tenant-scoped
  model never returns, counts, changes or removes a record created under another tenant
  T1.  For \<^verbatim>\<open>ShipmentRoute\<close> the interceptor forwards the filter untouched.  In a store
  that holds tenant A's two locations, tenant A creates a route between them with A's
  tenant id; storage accepts it; \<^verbatim>\<open>findAll\<close> under tenant B returns it.  Likewise for
  \<^verbatim>\<open>RiskEventSupplier\<close>: with tenant A's supplier and risk event stored, the link that
  tenant A adds is deleted by \<^verbatim>\<open>removeSupplier\<close> under tenant B.  (For the five
  recognised models the forwarded filter selects only rows of the active tenant:
  \<open>forwarded_where_scoped\<close>, \<open>scoped_filter_selects_own_rows\<close>.)
\<close>

theorem route_of_other_tenant_returned:
  "\<not> isTenantedModel (ShipmentRouteService_findAll None)
   \<and> intercept (Some ''tenant-b-001'') (ShipmentRouteService_findAll None)
       = Inr (ShipmentRouteService_findAll None)
   \<and> fst (run (Some ''tenant-a-001'') (ShipmentRouteService_create route_a) tenant_a_store)
       = Inr (Record
           [(''id'', ''route-a''), (''tenant_id'', ''tenant-a-001''),
            (''origin_location_id'', ''loc-a1''), (''destination_location_id'', ''loc-a2''),
            (''transit_time_days'', ''5''), (''transport_mode'', ''TRUCK''),
            (''updated_at'', ''CURRENT_TIMESTAMP''), (''created_at'', ''CURRENT_TIMESTAMP'')])
   \<and> fst (run (Some ''tenant-b-001'') (ShipmentRouteService_findAll None) store_with_route)
       = Inr (Records
           [[(''id'', ''route-a''), (''tenant_id'', ''tenant-a-001''),
             (''origin_location_id'', ''loc-a1''), (''destination_location_id'', ''loc-a2''),
             (''transit_time_days'', ''5''), (''transport_mode'', ''TRUCK''),
             (''updated_at'', ''CURRENT_TIMESTAMP''), (''created_at'', ''CURRENT_TIMESTAMP'')]])
   \<and> fst (run (Some ''tenant-a-001'')
             (RiskEventService_addSupplier ''event-1'' ''sup-1'' ''tenant-a-001'') tenant_a_store)
       = Inr (Record
           [(''tenant_id'', ''tenant-a-001''), (''risk_event_id'', ''event-1''),
            (''supplier_id'', ''sup-1''), (''id'', ''generated-0''),
            (''created_at'', ''CURRENT_TIMESTAMP'')])
   \<and> store_with_link ''risk_event_suppliers''
       = [[(''tenant_id'', ''tenant-a-001''), (''risk_event_id'', ''event-1''),
           (''supplier_id'', ''sup-1''), (''id'', ''generated-0''),
           (''created_at'', ''CURRENT_TIMESTAMP'')]]
   \<and> fst (run (Some ''tenant-b-001'') (RiskEventService_removeSupplier ''event-1'' ''sup-1'')
         store_with_link)
       = Inr (Count 1)
   \<and> snd (run (Some ''tenant-b-001'') (RiskEventService_removeSupplier ''event-1'' ''sup-1'')
         store_with_link) ''risk_event_suppliers''
       = []"
  by code_simp

text \<open>
  C2 (precondition enforcement).  With no active tenant (\<^verbatim>\<open>null\<close>, or the empty string)
  every operation other than \<^verbatim>\<open>executeRaw\<close> and \<^verbatim>\<open>queryRaw\<close>, on any model, fails with
  the tenant-required error; the interceptor throws before it calls \<^verbatim>\<open>next\<close>, so the
  outcome is the same for every \<open>next\<close> and the storage state is the one it was given.
\<close>

theorem precondition_enforced:
  assumes "\<not> truthy (getCurrentTenant ctx)"
    and "action p \<noteq> ''executeRaw''" and "action p \<noteq> ''queryRaw''"
  shows "intercept ctx p = Inl TenantRequired \<and>
         tenantIsolationMiddleware ctx p next s = (Inl TenantRequired, s)"
  using assms by (simp add: tenantIsolationMiddleware_def intercept_def Let_def)

theorem precondition_enforced_witness:
  "\<not> truthy (getCurrentTenant None)
   \<and> action (SupplierService_create (JObject [(''code'', JString ''SUP-NO-TENANT'')])) \<noteq> ''executeRaw''
   \<and> action (SupplierService_create (JObject [(''code'', JString ''SUP-NO-TENANT'')])) \<noteq> ''queryRaw''
   \<and> intercept None (SupplierService_create (JObject [(''code'', JString ''SUP-NO-TENANT'')]))
       = Inl TenantRequired
   \<and> tenantIsolationMiddleware None
        (SupplierService_create (JObject [(''code'', JString ''SUP-NO-TENANT'')]))
        storage empty_store = (Inl TenantRequired, empty_store)"
proof -
  have h: "\<not> truthy (getCurrentTenant None)"
    by (simp add: getCurrentTenant_def)
  have a1: "action (SupplierService_create (JObject [(''code'', JString ''SUP-NO-TENANT'')]))
              \<noteq> ''executeRaw''"
    by (simp add: SupplierService_create_def prisma_call_def)
  have a2: "action (SupplierService_create (JObject [(''code'', JString ''SUP-NO-TENANT'')]))
              \<noteq> ''queryRaw''"
    by (simp add: SupplierService_create_def prisma_call_def)
  from precondition_enforced [OF h a1 a2, of storage empty_store] h a1 a2
  show ?thesis by blast
qed

text \<open>
  C3 (auto-stamping).  The claim: the data forwarded for a \<^verbatim>\<open>create\<close> on a tenant-scoped
  model carries the active tenant, whatever the caller supplied.  For the junction model
  \<^verbatim>\<open>RiskEventSupplier\<close> it does not: \<^verbatim>\<open>addSupplier\<close> called under tenant B with tenant
  A's id is forwarded unchanged, and, the supplier and the risk event being stored, the
  row is accepted and belongs to tenant A.  (For the five recognised models the payload
  is stamped: \<open>create_stamped\<close>, \<open>createMany_stamped\<close>.)
\<close>

theorem junction_create_keeps_caller_tenant:
  "intercept (Some ''tenant-b-001'')
      (RiskEventService_addSupplier ''event-1'' ''sup-1'' ''tenant-a-001'')
     = Inr (RiskEventService_addSupplier ''event-1'' ''sup-1'' ''tenant-a-001'')
   \<and> snd (run (Some ''tenant-b-001'')
             (RiskEventService_addSupplier ''event-1'' ''sup-1'' ''tenant-a-001'') tenant_a_store)
        ''risk_event_suppliers''
     = [[(''tenant_id'', ''tenant-a-001''), (''risk_event_id'', ''event-1''),
         (''supplier_id'', ''sup-1''), (''id'', ''generated-0''),
         (''created_at'', ''CURRENT_TIMESTAMP'')]]"
  by code_simp

text \<open>
  C4 (cross-tenant update).  The claim: an update issued under tenant T2 of a record
  created under T1 matches no row, is reported as not-found, and leaves the record as it
  was.  For \<^verbatim>\<open>ShipmentRoute\<close> the update goes through.  In a store that holds tenant
  A's two locations, tenant A creates a route with transit time 5; tenant B's update of
  that route to transit time 9 succeeds; tenant A reads 9 back.  (For the recognised
  models such an update is reported as not-found: \<open>cross_tenant_update_not_found\<close>.)
\<close>

theorem route_of_other_tenant_updated:
  "fst (run (Some ''tenant-a-001'') (ShipmentRouteService_create route_a) tenant_a_store)
     = Inr (Record
         [(''id'', ''route-a''), (''tenant_id'', ''tenant-a-001''),
          (''origin_location_id'', ''loc-a1''), (''destination_location_id'', ''loc-a2''),
          (''transit_time_days'', ''5''), (''transport_mode'', ''TRUCK''),
          (''updated_at'', ''CURRENT_TIMESTAMP''), (''created_at'', ''CURRENT_TIMESTAMP'')])
   \<and> fst (run (Some ''tenant-b-001'')
          (ShipmentRouteService_update ''route-a'' (JObject [(''transitTimeDays'', JNumber 9)]))
          store_with_route)
     = Inr (Record
         [(''id'', ''route-a''), (''tenant_id'', ''tenant-a-001''),
          (''origin_location_id'', ''loc-a1''), (''destination_location_id'', ''loc-a2''),
          (''transit_time_days'', ''9''), (''transport_mode'', ''TRUCK''),
          (''updated_at'', ''CURRENT_TIMESTAMP''), (''created_at'', ''CURRENT_TIMESTAMP'')])
   \<and> fst (run (Some ''tenant-a-001'') (ShipmentRouteService_findById ''route-a'')
          (snd (run (Some ''tenant-b-001'')
             (ShipmentRouteService_update ''route-a'' (JObject [(''transitTimeDays'', JNumber 9)]))
             store_with_route)))
     = Inr (RecordOrNull (Some
         [(''id'', ''route-a''), (''tenant_id'', ''tenant-a-001''),
          (''origin_location_id'', ''loc-a1''), (''destination_location_id'', ''loc-a2''),
          (''transit_time_days'', ''9''), (''transport_mode'', ''TRUCK''),
          (''updated_at'', ''CURRENT_TIMESTAMP''), (''created_at'', ''CURRENT_TIMESTAMP'')]))"
  by code_simp

text \<open>
  C5 (pass-through).  The claim: raw queries and operations on an entity type outside the
  tenant-scoped set are forwarded unmodified and need no active tenant.  The second half
  fails: the tenant check comes before the model check, so a \<^verbatim>\<open>findMany\<close> on a model
  that is none of the eleven is refused without a tenant and forwarded with one.
\<close>

theorem passthrough_counterexample:
  "outside_tenant_scope (prisma_call ''AuditLog'' ''findMany'' None None [])
   \<and> \<not> isTenantedModel (prisma_call ''AuditLog'' ''findMany'' None None [])
   \<and> run None (prisma_call ''AuditLog'' ''findMany'' None None []) empty_store
       = (Inl TenantRequired, empty_store)
   \<and> run (Some ''tenant-a-001'') (prisma_call ''AuditLog'' ''findMany'' None None []) empty_store
       = storage (prisma_call ''AuditLog'' ''findMany'' None None []) empty_store"
proof -
  have o: "outside_tenant_scope (prisma_call ''AuditLog'' ''findMany'' None None [])"
    by code_simp
  have m: "\<not> isTenantedModel (prisma_call ''AuditLog'' ''findMany'' None None [])"
    by code_simp
  have "intercept None (prisma_call ''AuditLog'' ''findMany'' None None []) = Inl TenantRequired"
    by code_simp
  moreover have "intercept (Some ''tenant-a-001'') (prisma_call ''AuditLog'' ''findMany'' None None [])
      = Inr (prisma_call ''AuditLog'' ''findMany'' None None [])"
    by code_simp
  ultimately show ?thesis using o m by (simp add: run_def tenantIsolationMiddleware_def)
qed

text \<open>
  C5 as the code has it.  A raw query (\<^verbatim>\<open>executeRaw\<close>, \<^verbatim>\<open>queryRaw\<close>) is forwarded
  unmodified whether or not a tenant is set.  An operation on an entity type outside the
  tenant-scoped set (it names no model, or a model that is none of the eleven of the
  schema) is forwarded unmodified when a tenant is set, and fails with the
  tenant-required error when none is.
\<close>

theorem passthrough_amended:
  assumes "action p \<in> {''executeRaw'', ''queryRaw''} \<or> outside_tenant_scope p"
  shows "tenantIsolationMiddleware ctx p next s =
           (if action p \<in> {''executeRaw'', ''queryRaw''} \<or> truthy (getCurrentTenant ctx)
            then next p s else (Inl TenantRequired, s))"
proof -
  from assms have "action p \<in> {''executeRaw'', ''queryRaw''} \<or> \<not> isTenantedModel p"
    using outside_not_recognised by blast
  then show ?thesis
    by (auto simp add: tenantIsolationMiddleware_def intercept_def Let_def rewrite_params_def)
qed

theorem passthrough_amended_witness:
  "(action (raw_statement ''TRUNCATE TABLE users CASCADE'') \<in> {''executeRaw'', ''queryRaw''}
      \<or> outside_tenant_scope (raw_statement ''TRUNCATE TABLE users CASCADE''))
   \<and> tenantIsolationMiddleware None (raw_statement ''TRUNCATE TABLE users CASCADE'')
        storage empty_store
       = storage (raw_statement ''TRUNCATE TABLE users CASCADE'') empty_store
   \<and> outside_tenant_scope (prisma_call ''AuditLog'' ''findMany'' None None [])
   \<and> tenantIsolationMiddleware (Some ''tenant-a-001'')
        (prisma_call ''AuditLog'' ''findMany'' None None []) storage empty_store
       = storage (prisma_call ''AuditLog'' ''findMany'' None None []) empty_store
   \<and> tenantIsolationMiddleware None
        (prisma_call ''AuditLog'' ''findMany'' None None []) storage empty_store
       = (Inl TenantRequired, empty_store)"
proof -
  have a: "action (raw_statement ''TRUNCATE TABLE users CASCADE'') = ''executeRaw''"
    by (simp add: raw_statement_def)
  then have h: "action (raw_statement ''TRUNCATE TABLE users CASCADE'') \<in> {''executeRaw'', ''queryRaw''}
      \<or> outside_tenant_scope (raw_statement ''TRUNCATE TABLE users CASCADE'')"
    by simp
  have raw: "tenantIsolationMiddleware None (raw_statement ''TRUNCATE TABLE users CASCADE'')
        storage empty_store
       = storage (raw_statement ''TRUNCATE TABLE users CASCADE'') empty_store"
    using passthrough_amended [OF h, of None storage empty_store] a by simp
  have m: "outside_tenant_scope (prisma_call ''AuditLog'' ''findMany'' None None [])"
    by code_simp
  then have h': "action (prisma_call ''AuditLog'' ''findMany'' None None [])
        \<in> {''executeRaw'', ''queryRaw''}
      \<or> outside_tenant_scope (prisma_call ''AuditLog'' ''findMany'' None None [])"
    by simp
  have b: "action (prisma_call ''AuditLog'' ''findMany'' None None []) = ''findMany''"
    by (simp add: prisma_call_def)
  have set: "tenantIsolationMiddleware (Some ''tenant-a-001'')
        (prisma_call ''AuditLog'' ''findMany'' None None []) storage empty_store
       = storage (prisma_call ''AuditLog'' ''findMany'' None None []) empty_store"
    using passthrough_amended [OF h', of "Some ''tenant-a-001''" storage empty_store]
    by (simp add: getCurrentTenant_def)
  have unset: "tenantIsolationMiddleware None
        (prisma_call ''AuditLog'' ''findMany'' None None []) storage empty_store
       = (Inl TenantRequired, empty_store)"
    using passthrough_amended [OF h', of None storage empty_store] b
    by (simp add: getCurrentTenant_def)
  from h raw m set unset show ?thesis by blast
qed



text \<open>
  C10 (filter tenant override).  The claim: the forwarded filter of a read, update or
  delete on a tenant-scoped model has \<^verbatim>\<open>tenantId\<close> equal to the active tenant, whatever
  the caller put there.  For \<^verbatim>\<open>RiskEvent\<close> the caller's value survives: \<^verbatim>\<open>findAll\<close> with
  tenant A's id in the filter, called under tenant B, is forwarded as it came.  (For the
  five recognised models the override holds: \<open>forwarded_where_scoped\<close>,
  \<open>forwarded_where_independent\<close>.)
\<close>

theorem risk_event_filter_keeps_caller_tenant:
  "intercept (Some ''tenant-b-001'')
      (RiskEventService_findAll (Some (JObject [(''tenantId'', JString ''tenant-a-001'')])))
     = Inr (RiskEventService_findAll (Some (JObject [(''tenantId'', JString ''tenant-a-001'')])))
   \<and> args_where (args
        (RiskEventService_findAll (Some (JObject [(''tenantId'', JString ''tenant-a-001'')]))))
     = Some (JObject [(''tenantId'', JString ''tenant-a-001'')])"
  by code_simp


section \<open>Facts about the schema\<close>

lemma find_Some_ex: "x \<in> set xs \<Longrightarrow> P x \<Longrightarrow> \<exists>y. find P xs = Some y"
  by (cases "find P xs") (auto simp add: find_None_iff)

lemma references_row_eq: "references_row fk v = (\<lambda>r. map_of r (fk_column fk) = Some v)"
  by (simp add: fun_eq_iff references_row_def)

lemmas delete_defs = restrict_violation_def cascade_def foreign_keys_def references_row_eq

lemma tables_known:
  "map_of tables ''products'' \<noteq> None"
  "map_of tables ''risk_events'' \<noteq> None"
  "map_of tables ''suppliers'' \<noteq> None"
  by code_simp+

text \<open>
  A table that loses rows by cascade is referenced by no foreign key, so a cascade never
  continues and never meets a restriction.
\<close>

lemma cascade_children_unreferenced:
  "list_all (\<lambda>fk. fk_on_delete fk = Cascade \<longrightarrow>
       list_all (\<lambda>fk'. fk_references fk' \<noteq> fk_table fk) foreign_keys) foreign_keys"
  by code_simp

text \<open>Every column of every unique key is \<^verbatim>\<open>NOT NULL\<close> without default.\<close>

lemma index_columns_required_list:
  "list_all (\<lambda>i. list_all (\<lambda>c. c \<in> set (required_columns (idx_table i))) (idx_columns i))
     unique_indexes"
  by code_simp

lemma index_columns_required:
  "i \<in> set unique_indexes \<Longrightarrow> c \<in> set (idx_columns i) \<Longrightarrow>
   c \<in> set (required_columns (idx_table i))"
  using index_columns_required_list by (simp add: list_all_iff)

lemma required_present:
  "not_null_violation t r = None \<Longrightarrow> c \<in> set (required_columns t) \<Longrightarrow> map_of r c \<noteq> None"
  by (auto simp add: not_null_violation_def find_None_iff)

lemma seed_rows_accepted:
  "map (\<lambda>t. length (example_database t)) (map fst tables) = [1, 1, 2, 1, 1, 1, 0, 1, 1, 1, 1]"
  by code_simp


section \<open>Inserting under the unique keys\<close>

lemma insert_row_accepted:
  assumes "insert_row t r db = (Inr r', db1)"
  shows "db1 = db(t := db t @ [r]) \<and> r' = r \<and> not_null_violation t r = None \<and>
         map_of tables t \<noteq> None"
  using assms by (auto simp add: insert_row_def split: if_splits option.splits)

lemma unique_collision_rejected:
  assumes "i \<in> set unique_indexes" and "idx_table i = t"
    and "list_ex (collides (idx_columns i) r) (db t)"
    and "map_of tables t \<noteq> None" and "undefined_column t r = None"
  shows "\<exists>n. insert_row t r db = (Inl (SqlConstraintViolation n), db)"
proof -
  from assms(1-3) obtain j where "unique_violation t r db = Some j"
    unfolding unique_violation_def
    using find_Some_ex
      [where P = "\<lambda>i. idx_table i = t \<and> list_ex (collides (idx_columns i) r) (db t)"]
    by blast
  with assms(4,5) show ?thesis
    by (cases "not_null_violation t r") (auto simp add: insert_row_def)
qed

text \<open>After a row is accepted, a second row with the same values on any unique key of the table is refused.\<close>

lemma second_insert_rejected:
  assumes idx: "i \<in> set unique_indexes"
    and ins: "insert_row (idx_table i) r1 db = (Inr r1', db1)"
    and cols: "undefined_column (idx_table i) r2 = None"
    and agree: "\<forall>c\<in>set (idx_columns i). map_of r2 c = map_of r1 c"
  shows "\<exists>n. insert_row (idx_table i) r2 db1 = (Inl (SqlConstraintViolation n), db1)"
proof -
  from insert_row_accepted [OF ins]
  have db1: "db1 = db(idx_table i := db (idx_table i) @ [r1])"
    and nn: "not_null_violation (idx_table i) r1 = None"
    and tbl: "map_of tables (idx_table i) \<noteq> None" by simp_all
  have "collides (idx_columns i) r2 r1"
    unfolding collides_def list_all_iff
    using agree required_present [OF nn] index_columns_required [OF idx] by auto
  then have "list_ex (collides (idx_columns i) r2) (db1 (idx_table i))"
    by (simp add: db1 list_ex_iff)
  then show ?thesis
    using unique_collision_rejected [of i "idx_table i" r2 db1] idx tbl cols by simp
qed

lemma business_keys_indexed:
  "list_all (\<lambda>(t, cols). list_ex (\<lambda>i. idx_table i = t \<and> idx_columns i = cols) unique_indexes)
      [(''suppliers'', [''code'']), (''products'', [''sku'']), (''users'', [''email'']),
       (''shipment_routes'',
          [''tenant_id'', ''origin_location_id'', ''destination_location_id'', ''transport_mode'']),
       (''inventory'', [''tenant_id'', ''product_id'', ''location_id''])]"
  by code_simp


section \<open>Deleting under the foreign keys\<close>

lemma delete_product:
  assumes "list_ex (has_id pid) (db ''products'')"
  shows "fst (delete_row ''products'' pid db) =
           Inr (length (filter (has_id pid) (db ''products'')))"
    and "snd (delete_row ''products'' pid db) ''inventory'' =
           filter (\<lambda>r. map_of r ''product_id'' \<noteq> Some pid) (db ''inventory'')"
    and "snd (delete_row ''products'' pid db) ''products'' =
           filter (\<lambda>r. \<not> has_id pid r) (db ''products'')"
  using assms by (simp_all add: delete_row_def tables_known delete_defs)

lemma delete_risk_event:
  assumes "list_ex (has_id eid) (db ''risk_events'')"
  shows "fst (delete_row ''risk_events'' eid db) =
           Inr (length (filter (has_id eid) (db ''risk_events'')))"
    and "\<forall>j\<in>set [''risk_event_suppliers'', ''risk_event_products'', ''risk_event_locations'',
                  ''risk_event_routes''].
           snd (delete_row ''risk_events'' eid db) j =
           filter (\<lambda>r. map_of r ''risk_event_id'' \<noteq> Some eid) (db j)"
  using assms by (simp_all add: delete_row_def tables_known delete_defs)

lemma delete_supplier_restricted:
  assumes "list_ex (has_id sid) (db ''suppliers'')"
    and "list_ex (\<lambda>r. map_of r ''supplier_id'' = Some sid) (db ''products'')"
  shows "delete_row ''suppliers'' sid db =
           (Inl (SqlConstraintViolation ''products_supplier_id_fkey''), db)"
  using assms by (simp add: delete_row_def tables_known delete_defs)


section \<open>Claims about the schema\<close>

text \<open>
  C6 (uniqueness).  Once a Supplier, Product, User, ShipmentRoute or Inventory row has
  been accepted, inserting a row of the same table with the same code, the same sku, the
  same email, the same (tenant, origin, destination, mode), or the same (tenant, product,
  location) fails with a constraint violation and leaves the database as it was.  For
  code, sku and email the key does not contain the tenant column, so the second row is
  refused whatever tenant it belongs to.
\<close>

theorem duplicate_key_rejected:
  assumes key: "(t, cols) \<in> set
      [(''suppliers'', [''code'']), (''products'', [''sku'']), (''users'', [''email'']),
       (''shipment_routes'',
          [''tenant_id'', ''origin_location_id'', ''destination_location_id'', ''transport_mode'']),
       (''inventory'', [''tenant_id'', ''product_id'', ''location_id''])]"
    and first: "insert_row t r1 db = (Inr r1, db1)"
    and cols: "undefined_column t r2 = None"
    and agree: "\<forall>c\<in>set cols. map_of r2 c = map_of r1 c"
  shows "\<exists>n. insert_row t r2 db1 = (Inl (SqlConstraintViolation n), db1)"
proof -
  from business_keys_indexed [unfolded list_all_iff] key
  have "case (t, cols) of (t, cols) \<Rightarrow>
          list_ex (\<lambda>i. idx_table i = t \<and> idx_columns i = cols) unique_indexes"
    by (rule bspec)
  then have "\<exists>i\<in>set unique_indexes. idx_table i = t \<and> idx_columns i = cols"
    by (simp add: list_ex_iff)
  then obtain i where "i \<in> set unique_indexes" and "idx_table i = t" and "idx_columns i = cols"
    by blast
  with second_insert_rejected [of i r1 db r1 db1 r2] first cols agree show ?thesis by simp
qed

theorem duplicate_key_rejected_witness:
  "insert_row ''suppliers'' supplier_row_a empty_database
     = (Inr supplier_row_a, snd (insert_row ''suppliers'' supplier_row_a empty_database))
   \<and> undefined_column ''suppliers'' supplier_row_b = None
   \<and> map_of supplier_row_b ''code'' = map_of supplier_row_a ''code''
   \<and> map_of supplier_row_b ''tenant_id'' \<noteq> map_of supplier_row_a ''tenant_id''
   \<and> (\<exists>n. insert_row ''suppliers'' supplier_row_b
              (snd (insert_row ''suppliers'' supplier_row_a empty_database))
            = (Inl (SqlConstraintViolation n),
               snd (insert_row ''suppliers'' supplier_row_a empty_database)))"
proof -
  have key: "(''suppliers'', [''code'']) \<in> set
      [(''suppliers'', [''code'']), (''products'', [''sku'']), (''users'', [''email'']),
       (''shipment_routes'',
          [''tenant_id'', ''origin_location_id'', ''destination_location_id'', ''transport_mode'']),
       (''inventory'', [''tenant_id'', ''product_id'', ''location_id''])]"
    by simp
  have accepted: "fst (insert_row ''suppliers'' supplier_row_a empty_database) = Inr supplier_row_a"
    by code_simp
  have first: "insert_row ''suppliers'' supplier_row_a empty_database
     = (Inr supplier_row_a, snd (insert_row ''suppliers'' supplier_row_a empty_database))"
    by (rule prod_eqI) (simp_all add: accepted)
  have cols: "undefined_column ''suppliers'' supplier_row_b = None"
    by code_simp
  have code: "map_of supplier_row_b ''code'' = map_of supplier_row_a ''code''"
    by code_simp
  have tenant: "map_of supplier_row_b ''tenant_id'' \<noteq> map_of supplier_row_a ''tenant_id''"
    by code_simp
  have agree: "\<forall>c\<in>set [''code'']. map_of supplier_row_b c = map_of supplier_row_a c"
    using code by simp
  from duplicate_key_rejected [OF key first cols agree] first cols code tenant
  show ?thesis by blast
qed

text \<open>
  C7 (cascade and restrict).  Deleting a stored Product succeeds and removes exactly the
  Inventory rows that reference it.  Deleting a stored RiskEvent succeeds and removes,
  from each of the four junction tables, exactly the rows that reference it.  Deleting a
  stored Supplier that a Product row references fails with a constraint violation (the
  \<^verbatim>\<open>products_supplier_id_fkey\<close> restriction) and leaves the whole database as it was.
\<close>

theorem delete_rules:
  "(list_ex (has_id pid) (db ''products'') \<longrightarrow>
      (\<exists>n. fst (delete_row ''products'' pid db) = Inr n) \<and>
      snd (delete_row ''products'' pid db) ''inventory'' =
        filter (\<lambda>r. map_of r ''product_id'' \<noteq> Some pid) (db ''inventory'') \<and>
      \<not> list_ex (has_id pid) (snd (delete_row ''products'' pid db) ''products''))
   \<and> (list_ex (has_id eid) (db ''risk_events'') \<longrightarrow>
      (\<exists>n. fst (delete_row ''risk_events'' eid db) = Inr n) \<and>
      (\<forall>j\<in>set [''risk_event_suppliers'', ''risk_event_products'', ''risk_event_locations'',
                 ''risk_event_routes''].
         snd (delete_row ''risk_events'' eid db) j =
           filter (\<lambda>r. map_of r ''risk_event_id'' \<noteq> Some eid) (db j)))
   \<and> (list_ex (has_id sid) (db ''suppliers'') \<and>
        list_ex (\<lambda>r. map_of r ''supplier_id'' = Some sid) (db ''products'') \<longrightarrow>
      delete_row ''suppliers'' sid db =
        (Inl (SqlConstraintViolation ''products_supplier_id_fkey''), db))"
  using delete_product [of pid db] delete_risk_event [of eid db]
    delete_supplier_restricted [of sid db]
  by (simp add: list_ex_iff)

theorem delete_rules_witness:
  "list_ex (has_id ''prod-1'') (example_database ''products'')
   \<and> list_ex (has_id ''event-1'') (example_database ''risk_events'')
   \<and> list_ex (has_id ''sup-1'') (example_database ''suppliers'')
   \<and> list_ex (\<lambda>r. map_of r ''supplier_id'' = Some ''sup-1'') (example_database ''products'')
   \<and> length (example_database ''inventory'') = 1
   \<and> snd (delete_row ''products'' ''prod-1'' example_database) ''inventory'' = []
   \<and> length (example_database ''risk_event_routes'') = 1
   \<and> snd (delete_row ''risk_events'' ''event-1'' example_database) ''risk_event_routes'' = []
   \<and> delete_row ''suppliers'' ''sup-1'' example_database
       = (Inl (SqlConstraintViolation ''products_supplier_id_fkey''), example_database)"
proof -
  have h1: "list_ex (has_id ''prod-1'') (example_database ''products'')" by code_simp
  have h2: "list_ex (has_id ''event-1'') (example_database ''risk_events'')" by code_simp
  have h3: "list_ex (has_id ''sup-1'') (example_database ''suppliers'')" by code_simp
  have h4: "list_ex (\<lambda>r. map_of r ''supplier_id'' = Some ''sup-1'')
              (example_database ''products'')" by code_simp
  have e1: "length (example_database ''inventory'') = 1" by code_simp
  have e2: "filter (\<lambda>r. map_of r ''product_id'' \<noteq> Some ''prod-1'')
              (example_database ''inventory'') = []" by code_simp
  have e3: "length (example_database ''risk_event_routes'') = 1" by code_simp
  have e4: "filter (\<lambda>r. map_of r ''risk_event_id'' \<noteq> Some ''event-1'')
              (example_database ''risk_event_routes'') = []" by code_simp
  from delete_rules [of "''prod-1''" example_database "''event-1''" "''sup-1''"] h1 h2 h3 h4
  have "snd (delete_row ''products'' ''prod-1'' example_database) ''inventory'' = []"
    and "snd (delete_row ''risk_events'' ''event-1'' example_database) ''risk_event_routes'' = []"
    and "delete_row ''suppliers'' ''sup-1'' example_database
       = (Inl (SqlConstraintViolation ''products_supplier_id_fkey''), example_database)"
    by (simp_all add: e2 e4)
  with h1 h2 h3 h4 e1 e3 show ?thesis by blast
qed

text \<open>
  C9 (route endpoints).  The claim: no ShipmentRoute accepted by a create has its origin
  equal to its destination.  \<^verbatim>\<open>ShipmentRouteService.create\<close> hands its payload to Prisma
  as it is, the interceptor forwards it, and the schema has no rule on the two columns
  beyond the foreign keys: a route from \<^verbatim>\<open>loc-1\<close> to \<^verbatim>\<open>loc-1\<close> is accepted and stored.
\<close>

theorem route_with_equal_endpoints_accepted:
  "intercept (Some ''tenant-a-001'') (ShipmentRouteService_create loop_route)
     = Inr (ShipmentRouteService_create loop_route)
   \<and> fst (insert_row ''shipment_routes'' loop_route_row example_database) = Inr loop_route_row
   \<and> snd (insert_row ''shipment_routes'' loop_route_row example_database) ''shipment_routes''
     = example_database ''shipment_routes'' @ [loop_route_row]
   \<and> map_of loop_route_row ''origin_location_id'' = Some ''loc-1''
   \<and> map_of loop_route_row ''destination_location_id'' = Some ''loc-1''"
  by code_simp

end
